theory Spec2Isabelle
  imports Complex_Main
begin

section \<open>The share price dashboard (stock\_dashboardv1.4.py)\<close>

text \<open>
  The script is a Streamlit page: the watchlist and the portfolio live in the session
  state, two sidebar handlers mutate them, one function asks the price source for a quote,
  and two loops derive the rows of the watchlist and portfolio tables.

  Conventions of the embedding.
  \<^item> Python's \<open>None\<close> is \<open>None\<close> of an option type: an absent price is \<open>None\<close>.
  \<^item> Python floats are modelled by \<open>real\<close>: arithmetic is exact, there is no NaN and no
    infinity. The concrete inputs evaluated below are integers and dyadic fractions, on
    which binary floating point makes no rounding error before the final \<open>round(x, 2)\<close>.
  \<^item> A symbol is a \<open>string\<close>; \<open>strip\<close> and \<open>upper\<close> are modelled on ASCII
    characters (other characters are neither stripped nor changed).
  \<^item> Exceptions are values: the body of a \<open>try\<close> returns \<open>fault + 'a\<close>, and the
    \<open>except\<close> clause is the case distinction on it.
  \<^item> Of the rendering, only what can stop the script is modelled: the number format of a
    table raises on a column that holds no number (lines 167--170 and 224--233).
  \<^item> The \<open>st.cache_data\<close> decorators are not part of the model.
\<close>

subsection \<open>Strings\<close>

type_synonym symbol = string

text \<open>The ASCII characters that \<open>str.strip()\<close> removes: TAB, LF, VT, FF, CR, the
  separators FS, GS, RS, US, and the space.\<close>

definition py_isspace :: "char \<Rightarrow> bool" where
  "py_isspace c = (let n = (of_char c :: nat) in (9 \<le> n \<and> n \<le> 13) \<or> (28 \<le> n \<and> n \<le> 32))"

definition py_upper_char :: "char \<Rightarrow> char" where
  "py_upper_char c =
     (let n = (of_char c :: nat) in if 97 \<le> n \<and> n \<le> 122 then char_of (n - 32) else c)"

definition py_strip :: "string \<Rightarrow> string" where
  "py_strip s = rev (dropWhile py_isspace (rev (dropWhile py_isspace s)))"

definition py_upper :: "string \<Rightarrow> string" where
  "py_upper s = map py_upper_char s"

subsection \<open>Session state and the sidebar handlers\<close>

text \<open>A portfolio entry is the dictionary
  \<^verbatim>\<open>{"Symbol": sym, "Quantity": p_qty, "Buy Price": p_buy}\<close>.\<close>

record holding =
  Symbol :: symbol
  Quantity :: real
  Buy_Price :: real

text \<open>What a handler reports: \<open>st.success\<close>, \<open>st.warning\<close> or \<open>st.info\<close>, with its text.\<close>

datatype message = Success string | Warning string | Info string

text \<open>Both lists start empty (lines 32--36).\<close>

definition init_watchlist :: "symbol list" where
  "init_watchlist = []"

definition init_portfolio :: "holding list" where
  "init_portfolio = []"

text \<open>The handler of the button "Add to Watchlist" (lines 83--91). It returns the
  watchlist after the click and the message shown.\<close>

definition add_to_watchlist :: "symbol list \<Rightarrow> string \<Rightarrow> symbol list \<times> message" where
  "add_to_watchlist watchlist new_symbol =
     (let sym = py_upper (py_strip new_symbol) in
      if sym \<noteq> [] \<and> sym \<notin> set watchlist then
        (watchlist @ [sym], Success (''Added '' @ sym))
      else if sym = [] then
        (watchlist, Warning ''Enter a symbol first'')
      else
        (watchlist, Info (sym @ '' already exists'')))"

text \<open>The two number inputs of the portfolio form are declared with
  \<^verbatim>\<open>min_value=0.0\<close> (lines 105--106): the handler only ever receives such values.\<close>

definition number_inputs_ok :: "real \<Rightarrow> real \<Rightarrow> bool" where
  "number_inputs_ok p_qty p_buy = (0 \<le> p_qty \<and> 0 \<le> p_buy)"

text \<open>The handler of the button "Add to Portfolio" (lines 108--116).\<close>

definition add_to_portfolio ::
  "holding list \<Rightarrow> string \<Rightarrow> real \<Rightarrow> real \<Rightarrow> holding list \<times> message" where
  "add_to_portfolio portfolio p_sym p_qty p_buy =
     (let sym = py_upper (py_strip p_sym) in
      if sym \<noteq> [] \<and> p_qty > 0 then
        (portfolio @ [\<lparr>Symbol = sym, Quantity = p_qty, Buy_Price = p_buy\<rparr>],
         Success (''Added '' @ sym))
      else
        (portfolio, Warning ''Enter valid symbol & quantity''))"

text \<open>The invariant on portfolio entries: the symbol is non-empty and equal to its own
  stripped and upper-cased form, the quantity is positive, the buy price is not negative.\<close>

definition lot_ok :: "holding \<Rightarrow> bool" where
  "lot_ok h = (Symbol h \<noteq> [] \<and> py_strip (Symbol h) = Symbol h \<and> py_upper (Symbol h) = Symbol h
               \<and> 0 < Quantity h \<and> 0 \<le> Buy_Price h)"

definition portfolio_ok :: "holding list \<Rightarrow> bool" where
  "portfolio_ok portfolio = list_all lot_ok portfolio"

subsection \<open>The price source and the quote fetch\<close>

text \<open>A quote is the pair \<open>(current, previous close)\<close>; either component may be absent.\<close>

type_synonym quote = "real option \<times> real option"

text \<open>A value found in the \<open>info\<close> dictionary of the price source: \<open>None\<close>, a number,
  or any other object, on which \<open>float()\<close> raises; the flag is the truth value of that
  object. (Strings that \<open>float()\<close> can parse are not modelled.)\<close>

datatype pyval = PNone | PNum real | PBad bool

text \<open>The faults of the price source. All of them are Python exceptions derived from
  \<open>Exception\<close>, which is what the fetch catches.\<close>

datatype fault = NetworkError | UnknownSymbol | MalformedResponse

text \<open>What \<open>yf.Ticker(symbol)\<close> gives: the outcome of reading \<open>t.info\<close> and the outcome
  of \<open>t.history(period="2d")\<close> with its \<open>Close\<close> column, one number per row. The fetch
  looks at the second only in its fall-back branch.\<close>

record ticker =
  t_info :: "fault + (string \<rightharpoonup> pyval)"
  t_history :: "fault + real list"

type_synonym price_source = "symbol \<Rightarrow> fault + ticker"

definition dict_get :: "(string \<rightharpoonup> pyval) \<Rightarrow> string \<Rightarrow> pyval" where
  "dict_get d k = (case d k of None \<Rightarrow> PNone | Some v \<Rightarrow> v)"

fun py_truthy :: "pyval \<Rightarrow> bool" where
  "py_truthy PNone = False"
| "py_truthy (PNum x) = (x \<noteq> 0)"
| "py_truthy (PBad b) = b"

text \<open>Python's \<open>a or b\<close>: \<open>a\<close> when it is truthy, otherwise \<open>b\<close>.\<close>

definition py_or :: "pyval \<Rightarrow> pyval \<Rightarrow> pyval" where
  "py_or a b = (if py_truthy a then a else b)"

text \<open>\<^verbatim>\<open>float(v) if v is not None else None\<close>; \<open>float\<close> raises on anything that is
  not a number.\<close>

fun float_or_none :: "pyval \<Rightarrow> fault + real option" where
  "float_or_none PNone = Inr None"
| "float_or_none (PNum x) = Inr (Some x)"
| "float_or_none (PBad b) = Inl MalformedResponse"

text \<open>The returned tuple (lines 57--60): the first conversion runs first.\<close>

definition quote_of :: "pyval \<Rightarrow> pyval \<Rightarrow> fault + quote" where
  "quote_of current prev =
     (case float_or_none current of
        Inl e \<Rightarrow> Inl e
      | Inr c \<Rightarrow> (case float_or_none prev of Inl e \<Rightarrow> Inl e | Inr p \<Rightarrow> Inr (c, p)))"

text \<open>The live pair (lines 48--49): each field has a second key that is read when the
  first gives nothing truthy.\<close>

definition live_current :: "(string \<rightharpoonup> pyval) \<Rightarrow> pyval" where
  "live_current info =
     py_or (dict_get info ''currentPrice'') (dict_get info ''regularMarketPrice'')"

definition live_prev :: "(string \<rightharpoonup> pyval) \<Rightarrow> pyval" where
  "live_prev info =
     py_or (dict_get info ''previousClose'') (dict_get info ''regularMarketPreviousClose'')"

text \<open>The body of the \<open>try\<close> in \<open>fetch_price_for_symbol\<close> (lines 45--60).\<close>

definition fetch_body :: "price_source \<Rightarrow> symbol \<Rightarrow> fault + quote" where
  "fetch_body src symbol =
     (case src symbol of
        Inl e \<Rightarrow> Inl e
      | Inr t \<Rightarrow>
         (case t_info t of
            Inl e \<Rightarrow> Inl e
          | Inr info \<Rightarrow>
             (let current = live_current info;
                  prev = live_prev info
              in if current = PNone \<or> prev = PNone then
                   (case t_history t of
                      Inl e \<Rightarrow> Inl e
                    | Inr hist \<Rightarrow>
                       if length hist \<ge> 2 then
                         quote_of (PNum (hist ! (length hist - 1)))
                                  (PNum (hist ! (length hist - 2)))
                       else quote_of current prev)
                 else quote_of current prev)))"

text \<open>\<open>fetch_price_for_symbol\<close> (lines 42--62): \<^verbatim>\<open>except Exception: return (None, None)\<close>.\<close>

definition fetch_price_for_symbol :: "price_source \<Rightarrow> symbol \<Rightarrow> quote" where
  "fetch_price_for_symbol src symbol =
     (case fetch_body src symbol of Inl e \<Rightarrow> (None, None) | Inr q \<Rightarrow> q)"

text \<open>\<open>fetch_prices_for_list\<close> (lines 65--66), the dictionary comprehension
  \<^verbatim>\<open>{s: fetch_price_for_symbol(s) for s in symbols}\<close>, filled from left to right.\<close>

definition fetch_prices_for_list :: "price_source \<Rightarrow> symbol list \<Rightarrow> (symbol \<rightharpoonup> quote)" where
  "fetch_prices_for_list src symbols =
     foldl (\<lambda>m s. m(s \<mapsto> fetch_price_for_symbol src s)) Map.empty symbols"

text \<open>A price source that knows no symbol at all.\<close>

definition no_source :: price_source where
  "no_source s = Inl UnknownSymbol"

text \<open>\<^verbatim>\<open>prices_map.get(s, (None, None))\<close>, used by both tables.\<close>

definition get_quote :: "(symbol \<rightharpoonup> quote) \<Rightarrow> symbol \<Rightarrow> quote" where
  "get_quote prices_map s = (case prices_map s of None \<Rightarrow> (None, None) | Some q \<Rightarrow> q)"

subsection \<open>The watchlist table\<close>

text \<open>\<open>round(x, 2)\<close>: the nearest multiple of 1/100, a tie going to the even one.\<close>

definition round_half_even :: "real \<Rightarrow> int" where
  "round_half_even y =
     (let f = \<lfloor>y\<rfloor>; d = y - of_int f in
      if d < 1/2 then f else if d > 1/2 then f + 1 else if even f then f else f + 1)"

definition py_round2 :: "real \<Rightarrow> real" where
  "py_round2 x = of_int (round_half_even (x * 100)) / 100"

text \<open>The two derived values of a watchlist row before rounding (lines 148--149).
  A change with no previous close cannot occur; the last case of \<open>watch_pct\<close> is never
  reached from \<open>watch_change\<close>.\<close>

fun watch_change :: "real option \<Rightarrow> real option \<Rightarrow> real option" where
  "watch_change (Some current) (Some prev) = Some (current - prev)"
| "watch_change _ _ = None"

fun watch_pct :: "real option \<Rightarrow> real option \<Rightarrow> real option" where
  "watch_pct None _ = None"
| "watch_pct (Some change) (Some prev) = (if prev = 0 then None else Some ((change / prev) * 100))"
| "watch_pct (Some change) None = None"

record watch_row =
  w_Symbol :: symbol
  w_Current_Price :: "real option"
  w_Previous_Close :: "real option"
  w_Change :: "real option"
  w_Pct_Change :: "real option"

text \<open>One pass of the loop over the watchlist (lines 146--157).\<close>

definition watchlist_row :: "(symbol \<rightharpoonup> quote) \<Rightarrow> symbol \<Rightarrow> watch_row" where
  "watchlist_row prices_map s =
     (let (current, prev) = get_quote prices_map s;
          change = watch_change current prev;
          pct = watch_pct change prev
      in \<lparr>w_Symbol = s,
          w_Current_Price = map_option py_round2 current,
          w_Previous_Close = map_option py_round2 prev,
          w_Change = map_option py_round2 change,
          w_Pct_Change = map_option py_round2 pct\<rparr>)"

text \<open>The exceptions that the two tabs can raise.\<close>

datatype py_error = TypeError | ZeroDivisionError

text \<open>The rows become a data frame, and the styled frame is shown with the format
  \<^verbatim>\<open>"{:.2f}"\<close> on its number columns. A column in which at least one row has a
  number is a column of floats, a missing value being NaN, which the format prints. A
  column in which no row has a number keeps its \<open>None\<close> objects, and the format raises
  \<open>TypeError\<close> on the first of them.\<close>

definition all_none :: "real option list \<Rightarrow> bool" where
  "all_none col = (col \<noteq> [] \<and> filter (\<lambda>v. v \<noteq> None) col = [])"

text \<open>Showing the watchlist table (lines 159--170).\<close>

definition show_watchlist_table :: "watch_row list \<Rightarrow> py_error + unit" where
  "show_watchlist_table rows =
     (if all_none (map w_Current_Price rows) \<or> all_none (map w_Previous_Close rows)
         \<or> all_none (map w_Change rows) \<or> all_none (map w_Pct_Change rows)
      then Inl TypeError else Inr ())"

text \<open>The watchlist tab (lines 141--170): no table for an empty watchlist.\<close>

definition watchlist_tab ::
  "(symbol \<rightharpoonup> quote) \<Rightarrow> symbol list \<Rightarrow> py_error + watch_row list option" where
  "watchlist_tab prices_map watchlist =
     (if watchlist = [] then Inr None
      else (let rows = map (watchlist_row prices_map) watchlist in
            case show_watchlist_table rows of
              Inl e \<Rightarrow> Inl e
            | Inr u \<Rightarrow> Inr (Some rows)))"

subsection \<open>The portfolio table and its summary\<close>

text \<open>The derived values of one holding (lines 195--198), before rounding.\<close>

definition invested_of :: "holding \<Rightarrow> real" where
  "invested_of h = Buy_Price h * Quantity h"

definition current_value_of :: "real option \<Rightarrow> holding \<Rightarrow> real option" where
  "current_value_of current h =
     (case current of None \<Rightarrow> None | Some c \<Rightarrow> Some (c * Quantity h))"

definition pl_of :: "real option \<Rightarrow> holding \<Rightarrow> real option" where
  "pl_of current h =
     (case current_value_of current h of None \<Rightarrow> None | Some v \<Rightarrow> Some (v - invested_of h))"

definition pl_pct_of :: "real option \<Rightarrow> holding \<Rightarrow> real option" where
  "pl_pct_of current h =
     (case pl_of current h of
        None \<Rightarrow> None
      | Some pl \<Rightarrow> if invested_of h = 0 then None else Some ((pl / invested_of h) * 100))"

record portfolio_row =
  p_Symbol :: symbol
  p_Quantity :: real
  p_Buy_Price :: real
  p_Invested :: real
  p_Current_Price :: "real option"
  p_Current_Value :: "real option"
  p_PL :: "real option"
  p_PL_Pct :: "real option"

text \<open>The dictionary appended to \<open>rows\<close> (lines 204--213).\<close>

definition portfolio_row :: "(symbol \<rightharpoonup> quote) \<Rightarrow> holding \<Rightarrow> portfolio_row" where
  "portfolio_row prices_map h =
     (let current = fst (get_quote prices_map (Symbol h)) in
      \<lparr>p_Symbol = Symbol h,
       p_Quantity = Quantity h,
       p_Buy_Price = py_round2 (Buy_Price h),
       p_Invested = py_round2 (invested_of h),
       p_Current_Price = map_option py_round2 current,
       p_Current_Value = map_option py_round2 (current_value_of current h),
       p_PL = map_option py_round2 (pl_of current h),
       p_PL_Pct = map_option py_round2 (pl_pct_of current h)\<rparr>)"

text \<open>\<^verbatim>\<open>if current_value:\<close> holds for a number other than zero; \<open>None\<close> and \<open>0.0\<close>
  are both false.\<close>

fun truthy :: "real option \<Rightarrow> bool" where
  "truthy None = False"
| "truthy (Some v) = (v \<noteq> 0)"

text \<open>The loop over the portfolio (lines 188--213) with its three variables
  \<open>rows\<close>, \<open>total_invested\<close> and \<open>total_current\<close>.\<close>

fun portfolio_loop ::
  "(symbol \<rightharpoonup> quote) \<Rightarrow> holding list \<Rightarrow> portfolio_row list \<times> real \<times> real
     \<Rightarrow> portfolio_row list \<times> real \<times> real" where
  "portfolio_loop prices_map [] acc = acc"
| "portfolio_loop prices_map (h # hs) (rows, total_invested, total_current) =
     (let current = fst (get_quote prices_map (Symbol h));
          invested = invested_of h;
          current_value = current_value_of current h
      in portfolio_loop prices_map hs
           (rows @ [portfolio_row prices_map h],
            total_invested + invested,
            (if truthy current_value then total_current + the current_value
             else total_current)))"

record totals =
  total_invested :: real
  total_current :: real
  total_pl :: real
  total_pl_pct :: real

text \<open>Python's division of floats raises on a zero divisor.\<close>

definition py_div :: "real \<Rightarrow> real \<Rightarrow> py_error + real" where
  "py_div a b = (if b = 0 then Inl ZeroDivisionError else Inr (a / b))"

text \<open>The summary (lines 237--238):
  \<^verbatim>\<open>pl_pct = (total_pl / total_invested * 100) if total_invested else 0\<close>.\<close>

definition summary :: "real \<Rightarrow> real \<Rightarrow> py_error + totals" where
  "summary ti tc =
     (let pl = tc - ti in
      case (if ti \<noteq> 0 then (case py_div pl ti of Inl e \<Rightarrow> Inl e | Inr q \<Rightarrow> Inr (q * 100))
            else Inr 0) of
        Inl e \<Rightarrow> Inl e
      | Inr pl_pct \<Rightarrow>
          Inr \<lparr>total_invested = ti, total_current = tc, total_pl = pl, total_pl_pct = pl_pct\<rparr>)"

text \<open>The values of the three loop variables after the loop, started as in lines 184--186.\<close>

definition portfolio_pass :: "(symbol \<rightharpoonup> quote) \<Rightarrow> holding list \<Rightarrow> portfolio_row list \<times> real \<times> real" where
  "portfolio_pass prices_map portfolio = portfolio_loop prices_map portfolio ([], 0, 0)"

definition loop_total_invested :: "(symbol \<rightharpoonup> quote) \<Rightarrow> holding list \<Rightarrow> real" where
  "loop_total_invested prices_map portfolio = fst (snd (portfolio_pass prices_map portfolio))"

definition loop_total_current :: "(symbol \<rightharpoonup> quote) \<Rightarrow> holding list \<Rightarrow> real" where
  "loop_total_current prices_map portfolio = snd (snd (portfolio_pass prices_map portfolio))"

text \<open>Showing the portfolio table (lines 215--233). The columns \<open>Buy Price\<close> and
  \<open>Invested\<close> always hold numbers.\<close>

definition show_portfolio_table :: "portfolio_row list \<Rightarrow> py_error + unit" where
  "show_portfolio_table rows =
     (if all_none (map p_Current_Price rows) \<or> all_none (map p_Current_Value rows)
         \<or> all_none (map p_PL rows) \<or> all_none (map p_PL_Pct rows)
      then Inl TypeError else Inr ())"

text \<open>The portfolio tab (lines 181--243): nothing is computed for an empty portfolio;
  otherwise the loop runs, the table is shown, and the summary follows the table.\<close>

definition portfolio_tab ::
  "(symbol \<rightharpoonup> quote) \<Rightarrow> holding list \<Rightarrow> py_error + (portfolio_row list \<times> totals) option" where
  "portfolio_tab prices_map portfolio =
     (if portfolio = [] then Inr None
      else (case portfolio_pass prices_map portfolio of
              (rows, ti, tc) \<Rightarrow>
                (case show_portfolio_table rows of
                   Inl e \<Rightarrow> Inl e
                 | Inr u \<Rightarrow>
                     (case summary ti tc of
                        Inl e \<Rightarrow> Inl e
                      | Inr t \<Rightarrow> Inr (Some (rows, t))))))"

text \<open>The totals that the tab shows, when it gets to show them.\<close>

definition shown_totals ::
  "py_error + (portfolio_row list \<times> totals) option \<Rightarrow> py_error + totals option" where
  "shown_totals r = (case r of Inl e \<Rightarrow> Inl e | Inr x \<Rightarrow> Inr (map_option snd x))"

text \<open>The portfolio without the holdings of one symbol.\<close>

definition without_symbol :: "symbol \<Rightarrow> holding list \<Rightarrow> holding list" where
  "without_symbol s portfolio = filter (\<lambda>h. Symbol h \<noteq> s) portfolio"

text \<open>The current value of every holding, in portfolio order, and those that are defined.\<close>

definition current_values :: "(symbol \<rightharpoonup> quote) \<Rightarrow> holding list \<Rightarrow> real option list" where
  "current_values prices_map portfolio =
     map (\<lambda>h. current_value_of (fst (get_quote prices_map (Symbol h))) h) portfolio"

definition defined_values :: "real option list \<Rightarrow> real list" where
  "defined_values vs = map the (filter (\<lambda>v. v \<noteq> None) vs)"

definition holdings_of :: "symbol \<Rightarrow> holding list \<Rightarrow> holding list" where
  "holdings_of s portfolio = filter (\<lambda>h. Symbol h = s) portfolio"

section \<open>Properties\<close>

subsection \<open>Normalising a symbol\<close>

lemma upper_char_lower:
  assumes "97 \<le> (of_char c :: nat)" and "(of_char c :: nat) \<le> 122"
  shows "py_upper_char c = char_of (of_char c - 32 :: nat)"
  unfolding py_upper_char_def Let_def using assms by simp

lemma upper_char_other:
  assumes "\<not> (97 \<le> (of_char c :: nat) \<and> (of_char c :: nat) \<le> 122)"
  shows "py_upper_char c = c"
  unfolding py_upper_char_def Let_def using assms by (rule if_not_P)

lemma of_char_upper:
  "(of_char (py_upper_char c) :: nat) =
     (if 97 \<le> (of_char c :: nat) \<and> (of_char c :: nat) \<le> 122 then of_char c - 32 else of_char c)"
proof (cases "97 \<le> (of_char c :: nat) \<and> (of_char c :: nat) \<le> 122")
  case True
  then have "(of_char c - 32 :: nat) < 256" by arith
  then have m: "(of_char c - 32 :: nat) mod 256 = of_char c - 32" by (rule mod_less)
  have "py_upper_char c = char_of (of_char c - 32 :: nat)"
    using True by (intro upper_char_lower) simp_all
  then have "(of_char (py_upper_char c) :: nat) = (of_char c - 32) mod 256" by simp
  with m True show ?thesis by auto
next
  case False
  have "py_upper_char c = c" using False by (rule upper_char_other)
  with False show ?thesis by auto
qed

lemma upper_char_not_lower:
  "\<not> (97 \<le> (of_char (py_upper_char c) :: nat) \<and> (of_char (py_upper_char c) :: nat) \<le> 122)"
  unfolding of_char_upper by auto

lemma isspace_upper: "py_isspace (py_upper_char c) = py_isspace c"
  unfolding py_isspace_def Let_def of_char_upper by auto

lemma upper_upper_char: "py_upper_char (py_upper_char c) = py_upper_char c"
  using upper_char_not_lower by (rule upper_char_other)

lemma isspace_upper_comp: "py_isspace \<circ> py_upper_char = py_isspace"
  by (rule ext) (simp add: isspace_upper)

lemma py_upper_idem: "py_upper (py_upper s) = py_upper s"
  by (simp add: py_upper_def upper_upper_char)

lemma py_strip_upper: "py_strip (py_upper s) = py_upper (py_strip s)"
  by (simp add: py_strip_def py_upper_def dropWhile_map rev_map isspace_upper_comp)

lemma last_dropWhile_nonempty:
  assumes "dropWhile P xs \<noteq> []"
  shows "last (dropWhile P xs) = last xs"
proof -
  have "last xs = last (takeWhile P xs @ dropWhile P xs)" by simp
  also have "\<dots> = last (dropWhile P xs)" using assms by (rule last_appendR)
  finally show ?thesis by simp
qed

lemma dropWhile_rev_dropWhile:
  "dropWhile P (rev (dropWhile P (rev (dropWhile P s)))) = rev (dropWhile P (rev (dropWhile P s)))"
proof (cases "dropWhile P (rev (dropWhile P s)) = []")
  case True
  show ?thesis unfolding True by simp
next
  case False
  let ?a = "dropWhile P s"
  let ?b = "dropWhile P (rev ?a)"
  have a: "?a \<noteq> []"
  proof
    assume e: "?a = []"
    have "?b = []" unfolding e by simp
    with False show False by blast
  qed
  have "hd (rev ?b) = last ?b" using False by (simp add: hd_rev)
  also have "\<dots> = last (rev ?a)" using False by (rule last_dropWhile_nonempty)
  also have "\<dots> = hd ?a" using a by (simp add: last_rev)
  finally have "\<not> P (hd (rev ?b))" using hd_dropWhile [OF a] by simp
  then show ?thesis by (simp add: dropWhile_eq_self_iff)
qed

lemma py_strip_idem: "py_strip (py_strip s) = py_strip s"
  unfolding py_strip_def by (simp add: dropWhile_rev_dropWhile)

lemma normalised_stripped: "py_strip (py_upper (py_strip s)) = py_upper (py_strip s)"
  by (simp add: py_strip_upper py_strip_idem)


lemma normalised_upper: "py_upper (py_upper (py_strip s)) = py_upper (py_strip s)"
  by (rule py_upper_idem)

subsection \<open>The sidebar handlers\<close>

text \<open>
  Claim C7. Adding to the watchlist first strips and upper-cases the input. An empty
  result is reported as a validation failure and the watchlist is unchanged; a symbol
  already in the watchlist is reported as existing and the watchlist is unchanged; any
  other symbol, in its normalised form, is appended at the end.
\<close>

theorem add_to_watchlist_cases:
  fixes watchlist :: "symbol list" and new_symbol :: string
  defines "sy \<equiv> py_upper (py_strip new_symbol)"
  shows "(sy = [] \<longrightarrow>
            add_to_watchlist watchlist new_symbol = (watchlist, Warning ''Enter a symbol first''))
       \<and> (sy \<noteq> [] \<and> sy \<in> set watchlist \<longrightarrow>
            add_to_watchlist watchlist new_symbol = (watchlist, Info (sy @ '' already exists'')))
       \<and> (sy \<noteq> [] \<and> sy \<notin> set watchlist \<longrightarrow>
            add_to_watchlist watchlist new_symbol = (watchlist @ [sy], Success (''Added '' @ sy)))"
  unfolding sy_def add_to_watchlist_def Let_def by simp

theorem add_to_watchlist_cases_witness:
  "add_to_watchlist [''AAPL''] ''   '' = ([''AAPL''], Warning ''Enter a symbol first'')
   \<and> add_to_watchlist [''AAPL''] '' aapl'' = ([''AAPL''], Info ''AAPL already exists'')
   \<and> add_to_watchlist [''AAPL''] '' bhp.ax '' = ([''AAPL'', ''BHP.AX''], Success ''Added BHP.AX'')"
proof -
  have n1: "py_upper (py_strip ''   '') = []" by code_simp
  have n2: "py_upper (py_strip '' aapl'') = ''AAPL''" by code_simp
  have n3: "py_upper (py_strip '' bhp.ax '') = ''BHP.AX''" by code_simp
  from add_to_watchlist_cases [of "''   ''" "[''AAPL'']"]
       add_to_watchlist_cases [of "'' aapl''" "[''AAPL'']"]
       add_to_watchlist_cases [of "'' bhp.ax ''" "[''AAPL'']"]
  show ?thesis unfolding n1 n2 n3 by simp
qed

text \<open>
  Claim C8. Adding to the portfolio is a validation failure that leaves the portfolio
  unchanged when the normalised symbol is empty or the quantity is not positive.
  Otherwise a new entry is appended at the end, whatever the portfolio already holds:
  a second entry for the same symbol stays a separate entry.
\<close>

theorem add_to_portfolio_cases:
  fixes portfolio :: "holding list" and p_sym :: string and p_qty p_buy :: real
  defines "sy \<equiv> py_upper (py_strip p_sym)"
  shows "(sy = [] \<or> p_qty \<le> 0 \<longrightarrow>
            add_to_portfolio portfolio p_sym p_qty p_buy
              = (portfolio, Warning ''Enter valid symbol & quantity''))
       \<and> (sy \<noteq> [] \<and> 0 < p_qty \<longrightarrow>
            add_to_portfolio portfolio p_sym p_qty p_buy
              = (portfolio @ [\<lparr>Symbol = sy, Quantity = p_qty, Buy_Price = p_buy\<rparr>],
                 Success (''Added '' @ sy)))"
  unfolding sy_def add_to_portfolio_def Let_def by auto

theorem add_to_portfolio_cases_witness:
  "add_to_portfolio [\<lparr>Symbol = ''AAPL'', Quantity = 1, Buy_Price = 5\<rparr>] ''AAPL'' 0 10
     = ([\<lparr>Symbol = ''AAPL'', Quantity = 1, Buy_Price = 5\<rparr>], Warning ''Enter valid symbol & quantity'')
   \<and> add_to_portfolio [\<lparr>Symbol = ''AAPL'', Quantity = 1, Buy_Price = 5\<rparr>] '' aapl'' 2 10
     = ([\<lparr>Symbol = ''AAPL'', Quantity = 1, Buy_Price = 5\<rparr>,
         \<lparr>Symbol = ''AAPL'', Quantity = 2, Buy_Price = 10\<rparr>], Success ''Added AAPL'')"
proof -
  have n2: "py_upper (py_strip '' aapl'') = ''AAPL''" by code_simp
  from add_to_portfolio_cases [of "''AAPL''" 0 "[\<lparr>Symbol = ''AAPL'', Quantity = 1, Buy_Price = 5\<rparr>]" 10]
       add_to_portfolio_cases [of "'' aapl''" 2 "[\<lparr>Symbol = ''AAPL'', Quantity = 1, Buy_Price = 5\<rparr>]" 10]
  show ?thesis unfolding n2 by simp
qed

text \<open>
  Claim C10. Every portfolio entry has a non-empty, stripped, upper-cased symbol, a
  quantity above zero and a buy price of at least zero. This holds of the initial empty
  portfolio, and the add handler preserves it for the values that the two number inputs
  (minimum 0.0) can deliver.
\<close>

theorem portfolio_invariant:
  "portfolio_ok init_portfolio
   \<and> (portfolio_ok portfolio \<and> number_inputs_ok p_qty p_buy \<longrightarrow>
        portfolio_ok (fst (add_to_portfolio portfolio p_sym p_qty p_buy)))"
  by (simp add: portfolio_ok_def init_portfolio_def number_inputs_ok_def add_to_portfolio_def
        Let_def lot_ok_def normalised_stripped normalised_upper)

theorem portfolio_invariant_witness:
  "portfolio_ok [\<lparr>Symbol = ''AAPL'', Quantity = 1, Buy_Price = 5\<rparr>] \<and> number_inputs_ok 2 0
   \<and> portfolio_ok (fst (add_to_portfolio [\<lparr>Symbol = ''AAPL'', Quantity = 1, Buy_Price = 5\<rparr>] '' bhp.ax '' 2 0))"
proof -
  have s: "py_strip ''AAPL'' = ''AAPL''" "py_upper ''AAPL'' = ''AAPL''" by code_simp+
  have h: "portfolio_ok [\<lparr>Symbol = ''AAPL'', Quantity = 1, Buy_Price = 5\<rparr>] \<and> number_inputs_ok 2 0"
    by (simp add: portfolio_ok_def lot_ok_def number_inputs_ok_def s)
  with portfolio_invariant [of "[\<lparr>Symbol = ''AAPL'', Quantity = 1, Buy_Price = 5\<rparr>]" 2 0 "'' bhp.ax ''"]
  show ?thesis by blast
qed

subsection \<open>The quote fetch\<close>

lemma foldl_update_eq:
  "foldl (\<lambda>m s. m(s \<mapsto> f s)) m0 xs k = (if k \<in> set xs then Some (f k) else m0 k)"
  by (induction xs arbitrary: m0) simp_all

lemma fetch_prices_for_list_eq:
  "fetch_prices_for_list src symbols s =
     (if s \<in> set symbols then Some (fetch_price_for_symbol src s) else None)"
  by (simp add: fetch_prices_for_list_def foldl_update_eq)

lemma fetch_other_symbol:
  "s' \<noteq> s \<Longrightarrow> fetch_price_for_symbol (src(s := r)) s' = fetch_price_for_symbol src s'"
  by (simp add: fetch_price_for_symbol_def fetch_body_def)

text \<open>Three ways in which the price source itself fails inside the \<open>try\<close>: the
  ticker cannot be built, its info cannot be read, or the history request of the
  fall-back branch fails.\<close>

lemma fetch_body_faults:
  "src s = Inl e \<Longrightarrow> fetch_body src s = Inl e"
  "src s = Inr t \<Longrightarrow> t_info t = Inl e \<Longrightarrow> fetch_body src s = Inl e"
  "src s = Inr t \<Longrightarrow> t_info t = Inr info \<Longrightarrow> live_current info = PNone \<or> live_prev info = PNone
     \<Longrightarrow> t_history t = Inl e \<Longrightarrow> fetch_body src s = Inl e"
  by (auto simp add: fetch_body_def Let_def)

text \<open>
  Claim C2. Whatever is raised while a symbol is fetched, be it by the constructor of the
  ticker, by reading its info, by the history request or by a value that cannot be
  converted, the fetch gives the quote \<open>(None, None)\<close> for that symbol. The batch still
  holds a quote for every requested symbol, and what the source does for one symbol has
  no effect on the quote of any other.
\<close>

theorem fetch_fault_contained:
  assumes "fetch_body src s = Inl e" and "s \<in> set symbols"
  shows "fetch_price_for_symbol src s = (None, None)
       \<and> fetch_prices_for_list src symbols s = Some (None, None)
       \<and> (\<forall>s' \<in> set symbols.
            fetch_prices_for_list src symbols s' = Some (fetch_price_for_symbol src s'))
       \<and> (\<forall>s' r. s' \<noteq> s \<longrightarrow>
            fetch_price_for_symbol (src(s := r)) s' = fetch_price_for_symbol src s')"
  using assms
  by (simp add: fetch_prices_for_list_eq fetch_other_symbol) (simp add: fetch_price_for_symbol_def)

text \<open>
  A source that does not know \<open>XYZ\<close> and answers for \<open>AAPL\<close>.
\<close>

theorem fetch_fault_contained_witness:
  "fetch_body (no_source(''AAPL'' := Inr \<lparr>t_info = Inr [''currentPrice'' \<mapsto> PNum 150,
        ''previousClose'' \<mapsto> PNum 140], t_history = Inl NetworkError\<rparr>)) ''XYZ'' = Inl UnknownSymbol
   \<and> ''XYZ'' \<in> set [''AAPL'', ''XYZ'']
   \<and> fetch_prices_for_list (no_source(''AAPL'' := Inr \<lparr>t_info = Inr [''currentPrice'' \<mapsto> PNum 150,
        ''previousClose'' \<mapsto> PNum 140], t_history = Inl NetworkError\<rparr>)) [''AAPL'', ''XYZ''] ''XYZ''
       = Some (None, None)
   \<and> fetch_prices_for_list (no_source(''AAPL'' := Inr \<lparr>t_info = Inr [''currentPrice'' \<mapsto> PNum 150,
        ''previousClose'' \<mapsto> PNum 140], t_history = Inl NetworkError\<rparr>)) [''AAPL'', ''XYZ''] ''AAPL''
       = Some (Some 150, Some 140)"
proof -
  let ?src = "no_source(''AAPL'' := Inr \<lparr>t_info = Inr [''currentPrice'' \<mapsto> PNum 150,
        ''previousClose'' \<mapsto> PNum 140], t_history = Inl NetworkError\<rparr>)"
  have f: "fetch_body ?src ''XYZ'' = Inl UnknownSymbol"
    by (simp add: fetch_body_def no_source_def)
  have m: "''XYZ'' \<in> set [''AAPL'', ''XYZ'']" by simp
  have a: "fetch_price_for_symbol ?src ''AAPL'' = (Some 150, Some 140)"
    by (simp add: fetch_price_for_symbol_def fetch_body_def live_current_def live_prev_def
          dict_get_def py_or_def quote_of_def)
  from fetch_fault_contained [OF f m] f m a show ?thesis by simp
qed

text \<open>
  The claim C6 as stated ends with "both components absent, never a partial quote".
  With a current price, no previous close and a history of one row, the fetch returns
  the current price alone.
\<close>

theorem partial_quote_counterexample:
  "fetch_price_for_symbol (no_source(''XYZ'' := Inr \<lparr>t_info = Inr [''currentPrice'' \<mapsto> PNum 150],
        t_history = Inr [149]\<rparr>)) ''XYZ'' = (Some 150, None)"
  by (simp add: fetch_price_for_symbol_def fetch_body_def live_current_def live_prev_def
        dict_get_def py_or_def quote_of_def)

text \<open>
  Claim C6, amended. For a source that answers with an info dictionary whose live
  fields are numbers or \<open>None\<close>: when both live fields are present they are the quote and
  the history is not consulted; when one is missing, a history of two or more rows gives
  its last two closes, a history request that fails gives \<open>(None, None)\<close>, and a history
  of fewer than two rows leaves the live fields as they are, each component absent
  exactly when its live field is.
\<close>

theorem fetch_policy:
  assumes "src s = Inr t" and "t_info t = Inr info"
    and "float_or_none (live_current info) = Inr c"
    and "float_or_none (live_prev info) = Inr p"
  shows "(c \<noteq> None \<and> p \<noteq> None \<longrightarrow> fetch_price_for_symbol src s = (c, p))
       \<and> (c = None \<or> p = None \<longrightarrow>
            (\<forall>hist. t_history t = Inr hist \<and> 2 \<le> length hist \<longrightarrow>
               fetch_price_for_symbol src s
                 = (Some (hist ! (length hist - 1)), Some (hist ! (length hist - 2))))
          \<and> (\<forall>hist. t_history t = Inr hist \<and> length hist < 2 \<longrightarrow>
               fetch_price_for_symbol src s = (c, p))
          \<and> (\<forall>e. t_history t = Inl e \<longrightarrow> fetch_price_for_symbol src s = (None, None)))"
proof -
  have c: "c = None \<longleftrightarrow> live_current info = PNone"
    using assms(3) by (cases "live_current info") auto
  have p: "p = None \<longleftrightarrow> live_prev info = PNone"
    using assms(4) by (cases "live_prev info") auto
  have q: "quote_of (live_current info) (live_prev info) = Inr (c, p)"
    using assms(3,4) by (simp add: quote_of_def)
  have qh: "\<And>a b. quote_of (PNum a) (PNum b) = Inr (Some a, Some b)"
    by (simp add: quote_of_def)
  have body0: "fetch_body src s =
     (if live_current info = PNone \<or> live_prev info = PNone then
        (case t_history t of
           Inl e \<Rightarrow> Inl e
         | Inr hist \<Rightarrow>
             if 2 \<le> length hist
             then quote_of (PNum (hist ! (length hist - 1))) (PNum (hist ! (length hist - 2)))
             else quote_of (live_current info) (live_prev info))
      else quote_of (live_current info) (live_prev info))"
    using assms(1,2) by (simp add: fetch_body_def Let_def)
  have body: "fetch_body src s =
     (if c = None \<or> p = None then
        (case t_history t of
           Inl e \<Rightarrow> Inl e
         | Inr hist \<Rightarrow>
             if 2 \<le> length hist
             then Inr (Some (hist ! (length hist - 1)), Some (hist ! (length hist - 2)))
             else Inr (c, p))
      else Inr (c, p))"
    unfolding body0 q qh c p by (rule refl)
  show ?thesis
    unfolding fetch_price_for_symbol_def body by (simp add: not_le)
qed

theorem fetch_policy_witness:
  "fetch_price_for_symbol (no_source(''AAPL'' := Inr \<lparr>t_info = Inr [''currentPrice'' \<mapsto> PNum 150,
        ''previousClose'' \<mapsto> PNum 140], t_history = Inr [139, 140, 151]\<rparr>)) ''AAPL''
     = (Some 150, Some 140)
   \<and> fetch_price_for_symbol (no_source(''AAPL'' := Inr \<lparr>t_info = Inr [''currentPrice'' \<mapsto> PNum 150],
        t_history = Inr [139, 140, 151]\<rparr>)) ''AAPL'' = (Some 151, Some 140)
   \<and> fetch_price_for_symbol (no_source(''AAPL'' := Inr \<lparr>t_info = Inr [''currentPrice'' \<mapsto> PNum 150],
        t_history = Inr [149]\<rparr>)) ''AAPL'' = (Some 150, None)
   \<and> fetch_price_for_symbol (no_source(''AAPL'' := Inr \<lparr>t_info = Inr [''currentPrice'' \<mapsto> PNum 150],
        t_history = Inl NetworkError\<rparr>)) ''AAPL'' = (None, None)"
proof -
  let ?i1 = "[''currentPrice'' \<mapsto> PNum 150]"
  let ?i2 = "[''currentPrice'' \<mapsto> PNum 150, ''previousClose'' \<mapsto> PNum 140]"
  let ?t1 = "\<lparr>t_info = Inr ?i1, t_history = Inr [139, 140, 151 :: real]\<rparr>"
  let ?t2 = "\<lparr>t_info = Inr ?i2, t_history = Inr [139, 140, 151 :: real]\<rparr>"
  let ?t3 = "\<lparr>t_info = Inr ?i1, t_history = Inr [149 :: real]\<rparr>"
  let ?t4 = "\<lparr>t_info = Inr ?i1, t_history = (Inl NetworkError :: fault + real list)\<rparr>"
  have c1: "float_or_none (live_current ?i1) = Inr (Some 150)"
    and p1: "float_or_none (live_prev ?i1) = Inr None"
    and c2: "float_or_none (live_current ?i2) = Inr (Some 150)"
    and p2: "float_or_none (live_prev ?i2) = Inr (Some 140)"
    by (simp_all add: live_current_def live_prev_def dict_get_def py_or_def)
  have s1: "(no_source(''AAPL'' := Inr ?t1)) ''AAPL'' = Inr ?t1"
    and s2: "(no_source(''AAPL'' := Inr ?t2)) ''AAPL'' = Inr ?t2"
    and s3: "(no_source(''AAPL'' := Inr ?t3)) ''AAPL'' = Inr ?t3"
    and s4: "(no_source(''AAPL'' := Inr ?t4)) ''AAPL'' = Inr ?t4"
    by simp_all
  have i1: "t_info ?t1 = Inr ?i1" and i2: "t_info ?t2 = Inr ?i2"
    and i3: "t_info ?t3 = Inr ?i1" and i4: "t_info ?t4 = Inr ?i1"
    by simp_all
  from fetch_policy [of "no_source(''AAPL'' := Inr ?t2)" "''AAPL''" ?t2 ?i2 "Some 150" "Some 140",
         OF s2 i2 c2 p2]
       fetch_policy [of "no_source(''AAPL'' := Inr ?t1)" "''AAPL''" ?t1 ?i1 "Some 150" None,
         OF s1 i1 c1 p1]
       fetch_policy [of "no_source(''AAPL'' := Inr ?t3)" "''AAPL''" ?t3 ?i1 "Some 150" None,
         OF s3 i3 c1 p1]
       fetch_policy [of "no_source(''AAPL'' := Inr ?t4)" "''AAPL''" ?t4 ?i1 "Some 150" None,
         OF s4 i4 c1 p1]
  show ?thesis by simp
qed

subsection \<open>The watchlist rows\<close>

text \<open>
  A value rounded to two places differs from it by at most half a hundredth.
\<close>

lemma round_half_even_close: "\<bar>of_int (round_half_even y) - y\<bar> \<le> 1 / 2"
proof -
  have "of_int \<lfloor>y\<rfloor> \<le> y" "y < of_int \<lfloor>y\<rfloor> + 1" by linarith+
  then show ?thesis
    unfolding round_half_even_def Let_def by (auto simp: abs_le_iff)
qed

lemma py_round2_close: "\<bar>py_round2 x - x\<bar> \<le> 1 / 200"
proof -
  have "\<bar>of_int (round_half_even (x * 100)) - x * 100\<bar> \<le> 1 / 2"
    by (rule round_half_even_close)
  then show ?thesis unfolding py_round2_def by (simp add: abs_le_iff field_simps)
qed

text \<open>
  The claim C3 as stated has the change of a row equal to current minus previous
  exactly. The row stores the rounded difference: for the quote (1.0625, 1) it is 0.06.
\<close>

theorem rounded_change_counterexample:
  "get_quote [''AAPL'' \<mapsto> (Some 1.0625, Some 1)] ''AAPL'' = (Some 1.0625, Some 1)
   \<and> w_Change (watchlist_row [''AAPL'' \<mapsto> (Some 1.0625, Some 1)] ''AAPL'') \<noteq> Some (1.0625 - 1)"
  by (simp add: get_quote_def watchlist_row_def py_round2_def round_half_even_def)

text \<open>
  Claim C3, amended. When current and previous are both defined, the change computed is
  current minus previous and the percentage is change / previous * 100, absent when
  previous is zero; the row stores each of them rounded to two places. When current or
  previous is absent, the change and the percentage of the row are absent.
\<close>

theorem watchlist_row_change:
  assumes "get_quote prices_map s = (current, prev)"
  shows "(\<forall>c p. current = Some c \<and> prev = Some p \<longrightarrow>
            watch_change current prev = Some (c - p)
          \<and> watch_pct (watch_change current prev) prev
              = (if p = 0 then None else Some ((c - p) / p * 100))
          \<and> w_Change (watchlist_row prices_map s) = Some (py_round2 (c - p))
          \<and> w_Pct_Change (watchlist_row prices_map s)
              = (if p = 0 then None else Some (py_round2 ((c - p) / p * 100))))
       \<and> (current = None \<or> prev = None \<longrightarrow>
            w_Change (watchlist_row prices_map s) = None
          \<and> w_Pct_Change (watchlist_row prices_map s) = None)"
proof (cases current)
  case None
  then show ?thesis using assms by (simp add: watchlist_row_def)
next
  case (Some c)
  show ?thesis
  proof (cases prev)
    case None
    with Some show ?thesis using assms by (simp add: watchlist_row_def)
  next
    case (Some p)
    with \<open>current = Some c\<close> show ?thesis using assms by (simp add: watchlist_row_def)
  qed
qed

theorem watchlist_row_change_witness:
  "get_quote [''AAPL'' \<mapsto> (Some 3, Some 2), ''BHP.AX'' \<mapsto> (Some 3, Some 0)] ''AAPL''
     = (Some 3, Some 2)
   \<and> w_Change (watchlist_row [''AAPL'' \<mapsto> (Some 3, Some 2),
         ''BHP.AX'' \<mapsto> (Some 3, Some 0)] ''AAPL'') = Some 1
   \<and> w_Pct_Change (watchlist_row [''AAPL'' \<mapsto> (Some 3, Some 2),
         ''BHP.AX'' \<mapsto> (Some 3, Some 0)] ''AAPL'') = Some 50
   \<and> w_Change (watchlist_row [''AAPL'' \<mapsto> (Some 3, Some 2),
         ''BHP.AX'' \<mapsto> (Some 3, Some 0)] ''BHP.AX'') = Some 3
   \<and> w_Pct_Change (watchlist_row [''AAPL'' \<mapsto> (Some 3, Some 2),
         ''BHP.AX'' \<mapsto> (Some 3, Some 0)] ''BHP.AX'') = None
   \<and> w_Change (watchlist_row [''AAPL'' \<mapsto> (Some 3, Some 2),
         ''BHP.AX'' \<mapsto> (Some 3, Some 0)] ''XYZ'') = None
   \<and> w_Pct_Change (watchlist_row [''AAPL'' \<mapsto> (Some 3, Some 2),
         ''BHP.AX'' \<mapsto> (Some 3, Some 0)] ''XYZ'') = None"
proof -
  let ?pm = "[''AAPL'' \<mapsto> (Some 3, Some 2), ''BHP.AX'' \<mapsto> (Some (3::real), Some (0::real))]"
  have g1: "get_quote ?pm ''AAPL'' = (Some 3, Some 2)"
    and g2: "get_quote ?pm ''BHP.AX'' = (Some 3, Some 0)"
    and g3: "get_quote ?pm ''XYZ'' = (None, None)"
    by (simp_all add: get_quote_def)
  have r: "py_round2 1 = 1" "py_round2 50 = 50" "py_round2 3 = 3"
    by (simp_all add: py_round2_def round_half_even_def)
  from watchlist_row_change [OF g1] watchlist_row_change [OF g2] watchlist_row_change [OF g3]
       g1 r
  show ?thesis by simp
qed

subsection \<open>The portfolio rows and totals\<close>

lemma portfolio_loop_eq:
  "portfolio_loop pm pf (rows, ti, tc) =
     (rows @ map (portfolio_row pm) pf,
      ti + sum_list (map invested_of pf),
      tc + sum_list (defined_values (current_values pm pf)))"
proof (induction pf arbitrary: rows ti tc)
  case Nil
  show ?case by (simp add: defined_values_def current_values_def)
next
  case (Cons h hs)
  show ?case
  proof (cases "current_value_of (fst (get_quote pm (Symbol h))) h")
    case None
    then show ?thesis
      by (simp add: Cons.IH Let_def defined_values_def current_values_def)
  next
    case (Some v)
    then show ?thesis
      by (simp add: Cons.IH Let_def defined_values_def current_values_def)
  qed
qed

lemma portfolio_pass_eq:
  "portfolio_pass pm pf =
     (map (portfolio_row pm) pf, sum_list (map invested_of pf),
      sum_list (defined_values (current_values pm pf)))"
  by (simp add: portfolio_pass_def portfolio_loop_eq)

lemmas metric_defs = invested_of_def current_value_of_def pl_of_def pl_pct_of_def
  get_quote_def defined_values_def current_values_def without_symbol_def holdings_of_def

text \<open>
  Claim C4. The invested amount is buy price times quantity whether or not there is a
  live price. The current value is absent exactly when the current price is, and is
  current price times quantity otherwise; the profit is absent exactly when the current
  value is, and is current value minus invested otherwise. The row has an absent current
  value and profit in exactly the same cases.
\<close>

theorem lot_metrics:
  fixes prices_map :: "symbol \<rightharpoonup> quote"
  shows "invested_of h = Buy_Price h * Quantity h
   \<and> (current_value_of current h = None \<longleftrightarrow> current = None)
   \<and> (\<forall>c. current = Some c \<longrightarrow> current_value_of current h = Some (c * Quantity h))
   \<and> (pl_of current h = None \<longleftrightarrow> current_value_of current h = None)
   \<and> (\<forall>v. current_value_of current h = Some v \<longrightarrow> pl_of current h = Some (v - invested_of h))
   \<and> (p_Current_Value (portfolio_row prices_map h) = None
        \<longleftrightarrow> fst (get_quote prices_map (Symbol h)) = None)
   \<and> (p_PL (portfolio_row prices_map h) = None
        \<longleftrightarrow> p_Current_Value (portfolio_row prices_map h) = None)"
proof -
  have core: "invested_of h = Buy_Price h * Quantity h
   \<and> (current_value_of current h = None \<longleftrightarrow> current = None)
   \<and> (\<forall>c. current = Some c \<longrightarrow> current_value_of current h = Some (c * Quantity h))
   \<and> (pl_of current h = None \<longleftrightarrow> current_value_of current h = None)
   \<and> (\<forall>v. current_value_of current h = Some v \<longrightarrow> pl_of current h = Some (v - invested_of h))"
    by (cases current) (simp_all add: invested_of_def current_value_of_def pl_of_def)
  have row: "(p_Current_Value (portfolio_row prices_map h) = None
        \<longleftrightarrow> fst (get_quote prices_map (Symbol h)) = None)
   \<and> (p_PL (portfolio_row prices_map h) = None
        \<longleftrightarrow> p_Current_Value (portfolio_row prices_map h) = None)"
    by (cases "fst (get_quote prices_map (Symbol h))")
       (simp_all add: portfolio_row_def Let_def current_value_of_def pl_of_def)
  from core row show ?thesis by (intro conjI) (erule conjE | assumption)+
qed

theorem lot_metrics_witness:
  "current_value_of (Some 150) \<lparr>Symbol = ''AAPL'', Quantity = 10, Buy_Price = 100\<rparr> = Some 1500
   \<and> pl_of (Some 150) \<lparr>Symbol = ''AAPL'', Quantity = 10, Buy_Price = 100\<rparr> = Some 500"
proof -
  let ?h = "\<lparr>Symbol = ''AAPL'', Quantity = 10, Buy_Price = 100\<rparr>"
  from lot_metrics [of ?h "Some 150" Map.empty]
  have i: "invested_of ?h = 1000"
    and c: "current_value_of (Some 150) ?h = Some 1500"
    and p: "\<forall>v. current_value_of (Some 150) ?h = Some v \<longrightarrow> pl_of (Some 150) ?h = Some (v - invested_of ?h)"
    by simp_all
  from p c i show ?thesis by simp
qed

lemma summary_eq:
  "summary ti tc =
     Inr \<lparr>total_invested = ti, total_current = tc, total_pl = tc - ti,
          total_pl_pct = (if ti = 0 then 0 else (tc - ti) / ti * 100)\<rparr>"
  by (simp add: summary_def py_div_def Let_def)

text \<open>
  Claim C5. After the loop, the total invested is the sum of the invested amounts of all
  holdings and the total current value is the sum of the current values that are
  defined. The summary of two such totals never raises: it has their difference as total
  profit and the percentage total profit / total invested * 100, or 0 when the total
  invested is 0. Whenever the tab shows a summary it is this one, and it shows it for
  every portfolio with at least one holding whose table can be shown.
\<close>

theorem portfolio_totals:
  fixes prices_map :: "symbol \<rightharpoonup> quote" and portfolio :: "holding list"
  defines "ti \<equiv> sum_list (map invested_of portfolio)"
      and "tc \<equiv> sum_list (defined_values (current_values prices_map portfolio))"
  shows "loop_total_invested prices_map portfolio = ti
       \<and> loop_total_current prices_map portfolio = tc
       \<and> summary ti tc =
           Inr \<lparr>total_invested = ti, total_current = tc, total_pl = tc - ti,
                total_pl_pct = (if ti = 0 then 0 else (tc - ti) / ti * 100)\<rparr>
       \<and> (portfolio \<noteq> []
            \<and> show_portfolio_table (map (portfolio_row prices_map) portfolio) = Inr ()
          \<longrightarrow> portfolio_tab prices_map portfolio =
                Inr (Some (map (portfolio_row prices_map) portfolio,
                  \<lparr>total_invested = ti, total_current = tc, total_pl = tc - ti,
                   total_pl_pct = (if ti = 0 then 0 else (tc - ti) / ti * 100)\<rparr>)))
       \<and> (\<forall>rows t. portfolio_tab prices_map portfolio = Inr (Some (rows, t)) \<longrightarrow>
            rows = map (portfolio_row prices_map) portfolio
          \<and> t = \<lparr>total_invested = ti, total_current = tc, total_pl = tc - ti,
                 total_pl_pct = (if ti = 0 then 0 else (tc - ti) / ti * 100)\<rparr>)"
proof -
  have acc: "loop_total_invested prices_map portfolio = ti"
            "loop_total_current prices_map portfolio = tc"
    by (simp_all add: ti_def tc_def loop_total_invested_def loop_total_current_def
          portfolio_pass_eq)
  have shown: "portfolio \<noteq> []
        \<and> show_portfolio_table (map (portfolio_row prices_map) portfolio) = Inr ()
      \<longrightarrow> portfolio_tab prices_map portfolio =
            Inr (Some (map (portfolio_row prices_map) portfolio,
              \<lparr>total_invested = ti, total_current = tc, total_pl = tc - ti,
               total_pl_pct = (if ti = 0 then 0 else (tc - ti) / ti * 100)\<rparr>))"
    by (simp add: portfolio_tab_def portfolio_pass_eq summary_eq ti_def tc_def)
  have only: "\<forall>rows t. portfolio_tab prices_map portfolio = Inr (Some (rows, t)) \<longrightarrow>
            rows = map (portfolio_row prices_map) portfolio
          \<and> t = \<lparr>total_invested = ti, total_current = tc, total_pl = tc - ti,
                 total_pl_pct = (if ti = 0 then 0 else (tc - ti) / ti * 100)\<rparr>"
    by (auto simp add: portfolio_tab_def portfolio_pass_eq summary_eq ti_def tc_def
          split: if_splits sum.splits)
  from acc summary_eq [of ti tc] shown only show ?thesis
    by (intro conjI) assumption+
qed

theorem portfolio_totals_witness:
  "[\<lparr>Symbol = ''XYZ'', Quantity = 1, Buy_Price = 12\<rparr>,
    \<lparr>Symbol = ''AAPL'', Quantity = 1, Buy_Price = 4\<rparr>] \<noteq> []
   \<and> show_portfolio_table (map (portfolio_row [''AAPL'' \<mapsto> (Some 5, Some 4)])
        [\<lparr>Symbol = ''XYZ'', Quantity = 1, Buy_Price = 12\<rparr>,
         \<lparr>Symbol = ''AAPL'', Quantity = 1, Buy_Price = 4\<rparr>]) = Inr ()
   \<and> shown_totals (portfolio_tab [''AAPL'' \<mapsto> (Some 5, Some 4)]
        [\<lparr>Symbol = ''XYZ'', Quantity = 1, Buy_Price = 12\<rparr>,
         \<lparr>Symbol = ''AAPL'', Quantity = 1, Buy_Price = 4\<rparr>])
     = Inr (Some \<lparr>total_invested = 16, total_current = 5, total_pl = - 11,
                  total_pl_pct = - 68.75\<rparr>)
   \<and> summary 0 5
     = Inr \<lparr>total_invested = 0, total_current = 5, total_pl = 5, total_pl_pct = 0\<rparr>"
proof -
  let ?pm = "[''AAPL'' \<mapsto> (Some (5::real), Some (4::real))]"
  let ?pf = "[\<lparr>Symbol = ''XYZ'', Quantity = 1, Buy_Price = 12\<rparr>,
              \<lparr>Symbol = ''AAPL'', Quantity = 1, Buy_Price = 4\<rparr>]"
  let ?z = "[\<lparr>Symbol = ''AAPL'', Quantity = 1, Buy_Price = 0\<rparr>]"
  have ne: "?pf \<noteq> []" by simp
  have sh: "show_portfolio_table (map (portfolio_row ?pm) ?pf) = Inr ()"
    by (simp add: show_portfolio_table_def all_none_def portfolio_row_def Let_def metric_defs)
  from portfolio_totals [of ?pm ?pf, THEN conjunct2, THEN conjunct2, THEN conjunct2,
         THEN conjunct1] ne sh
  have tab: "shown_totals (portfolio_tab ?pm ?pf)
     = Inr (Some \<lparr>total_invested = 16, total_current = 5, total_pl = - 11,
                  total_pl_pct = - 68.75\<rparr>)"
    by (simp add: shown_totals_def metric_defs)
  from portfolio_totals [of ?pm ?z, THEN conjunct2, THEN conjunct2, THEN conjunct1]
  have zero: "summary 0 5
     = Inr \<lparr>total_invested = 0, total_current = 5, total_pl = 5, total_pl_pct = 0\<rparr>"
    by (simp add: metric_defs)
  from ne sh tab zero show ?thesis by (intro conjI)
qed

text \<open>
  The table cannot be shown when no holding has a profit percentage, which is the case
  when every quote failed or every invested amount is zero; the tab then stops at the
  table. For a portfolio that satisfies the invariant, a total invested of zero is such
  a case.
\<close>

lemma no_percentage_no_summary:
  assumes "portfolio \<noteq> []"
    and "\<forall>h \<in> set portfolio. pl_pct_of (fst (get_quote prices_map (Symbol h))) h = None"
  shows "portfolio_tab prices_map portfolio = Inl TypeError"
proof -
  have "filter (\<lambda>v. v \<noteq> None) (map p_PL_Pct (map (portfolio_row prices_map) portfolio)) = []"
    using assms(2) by (simp add: filter_empty_conv portfolio_row_def Let_def)
  then have "all_none (map p_PL_Pct (map (portfolio_row prices_map) portfolio))"
    using assms(1) by (simp add: all_none_def)
  then have "show_portfolio_table (map (portfolio_row prices_map) portfolio) = Inl TypeError"
    by (simp add: show_portfolio_table_def)
  then show ?thesis
    using assms(1) by (simp add: portfolio_tab_def portfolio_pass_eq)
qed

lemma zero_invested_no_summary:
  assumes "portfolio_ok portfolio" and "portfolio \<noteq> []"
    and "sum_list (map invested_of portfolio) = 0"
  shows "portfolio_tab prices_map portfolio = Inl TypeError"
proof -
  have nonneg: "\<forall>x \<in> set (map invested_of portfolio). 0 \<le> x"
    using assms(1) by (auto simp add: portfolio_ok_def list_all_iff lot_ok_def invested_of_def)
  then have "\<forall>x \<in> set (map invested_of portfolio). x = 0"
    using assms(3) by (simp only: sum_list_nonneg_eq_0_iff)
  then have "\<forall>h \<in> set portfolio. invested_of h = 0" by simp
  then have "\<forall>h \<in> set portfolio. pl_pct_of (fst (get_quote prices_map (Symbol h))) h = None"
    by (simp add: pl_pct_of_def split: option.split)
  with assms(2) show ?thesis by (rule no_percentage_no_summary)
qed

lemma filter_without_loop:
  assumes "fst (get_quote pm s) = None"
  shows "defined_values (current_values pm pf) = defined_values (current_values pm (without_symbol s pf))"
  using assms by (induction pf) (simp_all add: defined_values_def current_values_def without_symbol_def current_value_of_def)

lemma invested_split:
  "sum_list (map invested_of pf)
     = sum_list (map invested_of (without_symbol s pf)) + sum_list (map invested_of (holdings_of s pf))"
  by (induction pf) (simp_all add: without_symbol_def holdings_of_def)

text \<open>
  The claim C1 as stated has all four totals equal to those of the portfolio without the
  holdings of the failed symbol. The total invested still counts them: 16 against 4 here,
  and with it the total profit and its percentage differ.
\<close>

theorem failed_quote_totals_counterexample:
  "get_quote [''AAPL'' \<mapsto> (Some 5, Some 4)] ''XYZ'' = (None, None)
   \<and> shown_totals (portfolio_tab [''AAPL'' \<mapsto> (Some 5, Some 4)]
        [\<lparr>Symbol = ''XYZ'', Quantity = 1, Buy_Price = 12\<rparr>,
         \<lparr>Symbol = ''AAPL'', Quantity = 1, Buy_Price = 4\<rparr>])
     = Inr (Some \<lparr>total_invested = 16, total_current = 5, total_pl = - 11,
                  total_pl_pct = - 68.75\<rparr>)
   \<and> shown_totals (portfolio_tab [''AAPL'' \<mapsto> (Some 5, Some 4)]
        (without_symbol ''XYZ''
          [\<lparr>Symbol = ''XYZ'', Quantity = 1, Buy_Price = 12\<rparr>,
           \<lparr>Symbol = ''AAPL'', Quantity = 1, Buy_Price = 4\<rparr>]))
     = Inr (Some \<lparr>total_invested = 4, total_current = 5, total_pl = 1, total_pl_pct = 25\<rparr>)"
  by (simp add: shown_totals_def portfolio_tab_def portfolio_pass_def summary_def py_div_def
        show_portfolio_table_def all_none_def portfolio_row_def Let_def metric_defs)

text \<open>
  Claim C1, amended. When the quote of a symbol is \<open>(None, None)\<close>, every row of that
  symbol has an absent current price, current value, profit and profit percentage, and
  the total current value is that of the portfolio without the holdings of the symbol.
  The total invested is that of the reduced portfolio plus the invested amounts of those
  holdings. A summary that the tab shows is the summary of these two totals.
\<close>

theorem failed_quote_rows_and_totals:
  assumes "get_quote prices_map s = (None, None)"
  shows "(\<forall>h \<in> set portfolio. Symbol h = s \<longrightarrow>
            p_Current_Price (portfolio_row prices_map h) = None
          \<and> p_Current_Value (portfolio_row prices_map h) = None
          \<and> p_PL (portfolio_row prices_map h) = None
          \<and> p_PL_Pct (portfolio_row prices_map h) = None)
       \<and> loop_total_current prices_map portfolio
           = loop_total_current prices_map (without_symbol s portfolio)
       \<and> loop_total_invested prices_map portfolio
           = loop_total_invested prices_map (without_symbol s portfolio)
             + sum_list (map invested_of (holdings_of s portfolio))
       \<and> (\<forall>rows t. portfolio_tab prices_map portfolio = Inr (Some (rows, t)) \<longrightarrow>
            summary (loop_total_invested prices_map portfolio)
                    (loop_total_current prices_map portfolio) = Inr t)"
proof -
  have f: "fst (get_quote prices_map s) = None" using assms by simp
  have rows: "\<forall>h \<in> set portfolio. Symbol h = s \<longrightarrow>
            p_Current_Price (portfolio_row prices_map h) = None
          \<and> p_Current_Value (portfolio_row prices_map h) = None
          \<and> p_PL (portfolio_row prices_map h) = None
          \<and> p_PL_Pct (portfolio_row prices_map h) = None"
    using f by (simp add: portfolio_row_def Let_def current_value_of_def pl_of_def pl_pct_of_def)
  have cur: "loop_total_current prices_map portfolio
           = loop_total_current prices_map (without_symbol s portfolio)"
    using filter_without_loop [OF f, of portfolio]
    by (simp add: loop_total_current_def portfolio_pass_eq)
  have inv: "loop_total_invested prices_map portfolio
           = loop_total_invested prices_map (without_symbol s portfolio)
             + sum_list (map invested_of (holdings_of s portfolio))"
    using invested_split [of portfolio s]
    by (simp add: loop_total_invested_def portfolio_pass_eq)
  have tab: "\<forall>rows t. portfolio_tab prices_map portfolio = Inr (Some (rows, t)) \<longrightarrow>
            summary (loop_total_invested prices_map portfolio)
                    (loop_total_current prices_map portfolio) = Inr t"
    by (auto simp add: portfolio_tab_def loop_total_invested_def loop_total_current_def
          split: if_splits prod.splits sum.splits)
  from rows cur inv tab show ?thesis by (intro conjI) assumption+
qed

theorem failed_quote_rows_and_totals_witness:
  "get_quote [''AAPL'' \<mapsto> (Some 5, Some 4)] ''XYZ'' = (None, None)
   \<and> p_Current_Value (portfolio_row [''AAPL'' \<mapsto> (Some 5, Some 4)]
         \<lparr>Symbol = ''XYZ'', Quantity = 1, Buy_Price = 12\<rparr>) = None
   \<and> loop_total_current [''AAPL'' \<mapsto> (Some 5, Some 4)]
        [\<lparr>Symbol = ''XYZ'', Quantity = 1, Buy_Price = 12\<rparr>,
         \<lparr>Symbol = ''AAPL'', Quantity = 1, Buy_Price = 4\<rparr>]
      = loop_total_current [''AAPL'' \<mapsto> (Some 5, Some 4)]
         [\<lparr>Symbol = ''AAPL'', Quantity = 1, Buy_Price = 4\<rparr>]
   \<and> loop_total_invested [''AAPL'' \<mapsto> (Some 5, Some 4)]
        [\<lparr>Symbol = ''XYZ'', Quantity = 1, Buy_Price = 12\<rparr>,
         \<lparr>Symbol = ''AAPL'', Quantity = 1, Buy_Price = 4\<rparr>]
      = loop_total_invested [''AAPL'' \<mapsto> (Some 5, Some 4)]
         [\<lparr>Symbol = ''AAPL'', Quantity = 1, Buy_Price = 4\<rparr>] + 12"
proof -
  have g: "get_quote [''AAPL'' \<mapsto> (Some 5, Some 4)] ''XYZ'' = (None, None)"
    by (simp add: get_quote_def)
  note t = failed_quote_rows_and_totals [OF g,
         of "[\<lparr>Symbol = ''XYZ'', Quantity = 1, Buy_Price = 12\<rparr>,
              \<lparr>Symbol = ''AAPL'', Quantity = 1, Buy_Price = 4\<rparr>]"]
  from t [THEN conjunct1] t [THEN conjunct2, THEN conjunct1]
       t [THEN conjunct2, THEN conjunct2, THEN conjunct1] g
  show ?thesis by (simp add: without_symbol_def holdings_of_def invested_of_def)
qed

end
